theory Spec2Isabelle
  imports Complex_Main "HOL-Library.Word" "HOL-Library.Multiset"
begin

unbundle bit_operations_syntax

section \<open>Go values\<close>

text \<open>
  Go's \<open>int\<close> is modelled as \<open>int\<close>, for a 64-bit platform.  Where the width of a machine
  integer can be observed it is written out: the arithmetic of \<open>ComputeTreeParams\<close> on the
  configured sizes and the bucket arithmetic of \<open>Path\<close>, \<open>canPlaceAt\<close> and
  \<open>canPlaceAtConstantTime\<close> on a leaf given by the caller (64-bit wrap-around, \<open>wrap64\<close>),
  and the \<open>int32(...)\<close> conversions of the constant-time code (\<open>int32\<close>).  The remaining
  arithmetic is on loop counters bounded by the length of a slice.  Integer division
  truncates towards zero (\<open>goDiv\<close>), so the parent \<open>(b - 1) / 2\<close> of the root \<open>0\<close> is \<open>0\<close>
  again.
\<close>

definition wrap64 :: "int \<Rightarrow> int" where
  "wrap64 x = (x + 2 ^ 63) mod 2 ^ 64 - 2 ^ 63"

definition int32 :: "int \<Rightarrow> int" where
  "int32 x = (x + 2 ^ 31) mod 2 ^ 32 - 2 ^ 31"

definition goDiv :: "int \<Rightarrow> int \<Rightarrow> int" where
  "goDiv a b = sgn a * sgn b * (\<bar>a\<bar> div \<bar>b\<bar>)"

type_synonym byte = "8 word"

text \<open>\<open>make([]byte, n)\<close> and the built-in \<open>copy(dst, src)\<close>, which overwrites the first
  \<open>min (len dst) (len src)\<close> bytes of \<open>dst\<close>.\<close>

definition makeBytes :: "int \<Rightarrow> byte list" where
  "makeBytes n = replicate (nat n) 0"

definition copy :: "byte list \<Rightarrow> byte list \<Rightarrow> byte list" where
  "copy dst src = take (length dst) src @ drop (length src) dst"

text \<open>\<open>make([]T, n)\<close> panics when \<open>n\<close> is negative or when \<open>n\<close> elements of \<open>T\<close> need more than
  the runtime's \<open>maxAlloc\<close> bytes (\<open>2^48\<close> on 64-bit Linux); \<open>makeOk size n\<close> holds when it does
  not.  The sizes are those of a 64-bit platform: \<open>1\<close> for a byte, \<open>24\<close> for a slice header,
  \<open>40\<close> for a \<open>Block\<close>.  An allocation below that limit which exhausts the memory of the
  machine aborts the process; this is outside the model.\<close>

definition maxAlloc :: int where
  "maxAlloc = 2 ^ 48"

definition makeOk :: "int \<Rightarrow> int \<Rightarrow> bool" where
  "makeOk elemSize n \<longleftrightarrow> 0 \<le> n \<and> elemSize * n \<le> maxAlloc"

section \<open>config.go\<close>

definition EmptyBlockID :: int where
  "EmptyBlockID = -1"

datatype error =
    ErrInvalidConfig
  | ErrInvalidBlockID
  | ErrInvalidDataSize
  | ErrStashOverflow
  | ErrEncryptionFailed
  | ErrDecryptionFailed
  | Panic

text \<open>\<open>EvictionStrategy\<close> is an integer type in the source; every value other than the two
  named non-default ones selects the level-by-level strategy (the \<open>default\<close> branch).\<close>

type_synonym EvictionStrategy = int

definition EvictLevelByLevel :: EvictionStrategy where
  "EvictLevelByLevel = 0"

definition EvictGreedyByDepth :: EvictionStrategy where
  "EvictGreedyByDepth = 1"

definition EvictDeterministicTwoPath :: EvictionStrategy where
  "EvictDeterministicTwoPath = 2"

record Config =
  NumBlocks :: int
  BlockSize :: int
  BucketSize :: int
  StashLimit :: int
  EvictionStrategy :: EvictionStrategy
  ConstantTime :: bool

definition Validate :: "Config \<Rightarrow> error + Config" where
  "Validate c =
     (if NumBlocks c \<le> 0 \<or> BlockSize c \<le> 0 then Inl ErrInvalidConfig
      else
        let c1 = (if BucketSize c = 0 then c\<lparr>BucketSize := 5\<rparr> else c);
            c2 = (if StashLimit c1 = 0 then c1\<lparr>StashLimit := 100\<rparr> else c1)
        in Inr c2)"

text \<open>The loop \<open>for (1<<height)-1 < numBuckets { height++ }\<close>.  At \<open>height = 63\<close> the left
  side is \<open>MaxInt64\<close>, which is below no 64-bit value, so the loop has stopped by then; the
  bound \<open>h < 63\<close> states this for the termination proof (see \<open>heightLoop_guard\<close>).\<close>

function heightLoop :: "int \<Rightarrow> nat \<Rightarrow> nat" where
  "heightLoop numBuckets h =
     (if h < 63 \<and> wrap64 (wrap64 (2 ^ h) - 1) < numBuckets
      then heightLoop numBuckets (h + 1) else h)"
  by pat_completeness auto
termination
  by (relation "measure (\<lambda>(nb, h). 63 - h)") auto

text \<open>Returns \<open>(height, numLeaves, totalBuckets)\<close>; dividing by a zero bucket size panics.\<close>

definition ComputeTreeParams :: "Config \<Rightarrow> error + (int \<times> int \<times> int)" where
  "ComputeTreeParams c =
     (if BucketSize c = 0 then Inl Panic
      else
        let numBuckets = wrap64 (goDiv (wrap64 (wrap64 (NumBlocks c + BucketSize c) - 1)) (BucketSize c));
            h = heightLoop numBuckets 1
        in Inr (int h, wrap64 (2 ^ (h - 1)), wrap64 (wrap64 (2 ^ h) - 1)))"

section \<open>storage.go\<close>

record Block =
  ID :: int
  Leaf :: int
  Data :: "byte list"

text \<open>The calls the bucket store receives are recorded in \<open>calls\<close>, oldest first; the field
  is not part of the source and is never read by the engine.\<close>

datatype StoreCall = ReadCall int | WriteCall int

record InMemoryStorage =
  buckets :: "Block list list"
  bucketSize :: int
  blockSize :: int
  calls :: "StoreCall list"

text \<open>\<open>NewInMemoryStorage\<close> allocates the slice of buckets, then one bucket per index, then
  one payload per slot; an allocation that is never reached cannot panic.\<close>

definition NewInMemoryStorage :: "int \<Rightarrow> int \<Rightarrow> int \<Rightarrow> error + InMemoryStorage" where
  "NewInMemoryStorage numBuckets bSize blkSize =
     (if \<not> makeOk 24 numBuckets then Inl Panic
      else if 0 < numBuckets \<and> \<not> makeOk 40 bSize then Inl Panic
      else if 0 < numBuckets \<and> 0 < bSize \<and> \<not> makeOk 1 blkSize then Inl Panic
      else Inr \<lparr>buckets = replicate (nat numBuckets)
                   (replicate (nat bSize) \<lparr>ID = EmptyBlockID, Leaf = -1, Data = makeBytes blkSize\<rparr>),
                 bucketSize = bSize, blockSize = blkSize, calls = []\<rparr>)"

definition ReadBucket :: "InMemoryStorage \<Rightarrow> int \<Rightarrow> (error + Block list) \<times> InMemoryStorage" where
  "ReadBucket s idx =
     (let s1 = s\<lparr>calls := calls s @ [ReadCall idx]\<rparr>
      in if idx < 0 \<or> idx \<ge> int (length (buckets s)) then (Inl ErrInvalidConfig, s1)
         else (Inr (buckets s ! nat idx), s1))"

text \<open>\<open>WriteBucket\<close> stores the blocks slot by slot into the existing bucket; a bucket shorter
  than the argument is filled and then indexed out of range.\<close>

definition WriteBucket :: "InMemoryStorage \<Rightarrow> int \<Rightarrow> Block list \<Rightarrow> error option \<times> InMemoryStorage" where
  "WriteBucket s idx blocks =
     (let s1 = s\<lparr>calls := calls s @ [WriteCall idx]\<rparr>
      in if idx < 0 \<or> idx \<ge> int (length (buckets s)) then (Some ErrInvalidConfig, s1)
         else if int (length blocks) \<noteq> bucketSize s then (Some ErrInvalidConfig, s1)
         else if length (buckets s ! nat idx) < length blocks
           then (Some Panic, s1\<lparr>buckets := (buckets s)[nat idx :=
                   take (length (buckets s ! nat idx)) blocks]\<rparr>)
         else (None, s1\<lparr>buckets := (buckets s)[nat idx :=
                  blocks @ drop (length blocks) (buckets s ! nat idx)]\<rparr>))"

section \<open>posmap.go and encryptor.go\<close>

text \<open>\<open>InMemoryPositionMap\<close> is a Go map from block id to leaf.\<close>

type_synonym InMemoryPositionMap = "int \<rightharpoonup> int"

definition Get :: "InMemoryPositionMap \<Rightarrow> int \<Rightarrow> int \<times> bool" where
  "Get m blockID = (case m blockID of Some lf \<Rightarrow> (lf, True) | None \<Rightarrow> (0, False))"

definition Set :: "InMemoryPositionMap \<Rightarrow> int \<Rightarrow> int \<Rightarrow> InMemoryPositionMap" where
  "Set m blockID lf = m(blockID \<mapsto> lf)"

definition Size :: "InMemoryPositionMap \<Rightarrow> int" where
  "Size m = int (card (dom m))"

text \<open>\<open>NoOpEncryptor\<close>, the encryptor of \<open>NewInMemory\<close>: both directions return a copy.\<close>

definition Encrypt :: "int \<Rightarrow> int \<Rightarrow> byte list \<Rightarrow> error + byte list" where
  "Encrypt blockID lf plaintext = Inr (copy (makeBytes (int (length plaintext))) plaintext)"

definition Decrypt :: "int \<Rightarrow> int \<Rightarrow> byte list \<Rightarrow> error + byte list" where
  "Decrypt blockID lf ciphertext = Inr (copy (makeBytes (int (length ciphertext))) ciphertext)"

section \<open>oram.go: the engine\<close>

record block =
  id' :: int
  leaf :: int
  data :: "byte list"

text \<open>\<open>rng\<close> stands for \<open>crypto/rand.Reader\<close>: the entropy still to be delivered, one entry
  per read, an entry being the bytes of the read as a big-endian number.  An exhausted
  source is the failing reader, on which \<open>randomLeaf\<close> panics.\<close>

record PathORAM =
  cfg :: Config
  height :: int
  numLeaves :: int
  storage :: InMemoryStorage
  posMap :: InMemoryPositionMap
  stash :: "block list"
  rng :: "nat list"

definition New :: "Config \<Rightarrow> InMemoryStorage \<Rightarrow> InMemoryPositionMap \<Rightarrow> nat list \<Rightarrow> error + PathORAM" where
  "New c sto pm entropy =
     (case Validate c of
        Inl e \<Rightarrow> Inl e
      | Inr c' \<Rightarrow>
          (case ComputeTreeParams c' of
             Inl e \<Rightarrow> Inl e
           | Inr (h, nl, totalBuckets) \<Rightarrow>
               Inr \<lparr>cfg = c', height = h, numLeaves = nl, storage = sto, posMap = pm,
                    stash = [], rng = entropy\<rparr>))"

definition NewInMemory :: "Config \<Rightarrow> nat list \<Rightarrow> error + PathORAM" where
  "NewInMemory c entropy =
     (case Validate c of
        Inl e \<Rightarrow> Inl e
      | Inr c' \<Rightarrow>
          (case ComputeTreeParams c' of
             Inl e \<Rightarrow> Inl e
           | Inr (h, nl, totalBuckets) \<Rightarrow>
               (case NewInMemoryStorage totalBuckets (BucketSize c') (BlockSize c') of
                  Inl e \<Rightarrow> Inl e
                | Inr sto \<Rightarrow> New c' sto Map.empty entropy)))"

definition Capacity :: "PathORAM \<Rightarrow> int" where
  "Capacity s = NumBlocks (cfg s)"

definition StashSize :: "PathORAM \<Rightarrow> int" where
  "StashSize s = int (length (stash s))"

definition SizeOf :: "PathORAM \<Rightarrow> int" where
  "SizeOf s = Size (posMap s)"

text \<open>\<open>rand.Int(rand.Reader, max)\<close> panics on \<open>max \<le> 0\<close>.  With \<open>bitLen\<close> the bit length of
  \<open>max - 1\<close>, it returns \<open>0\<close> without reading when \<open>bitLen = 0\<close>; otherwise it reads until the
  bytes read, cut to \<open>bitLen\<close> bits, are a number below \<open>max\<close>.\<close>

fun bitLen :: "nat \<Rightarrow> nat" where
  "bitLen n = (if n = 0 then 0 else Suc (bitLen (n div 2)))"

declare bitLen.simps [simp del]

fun randInt :: "int \<Rightarrow> nat list \<Rightarrow> (int \<times> nat list) option" where
  "randInt mx [] = None"
| "randInt mx (r # rest) =
     (let n = int (r mod 2 ^ bitLen (nat (mx - 1)))
      in if n < mx then Some (n, rest) else randInt mx rest)"

definition randomLeaf :: "PathORAM \<Rightarrow> (error + int) \<times> PathORAM" where
  "randomLeaf s =
     (if numLeaves s \<le> 0 then (Inl Panic, s)
      else if bitLen (nat (numLeaves s - 1)) = 0 then (Inr 0, s)
      else case randInt (numLeaves s) (rng s) of
             None \<Rightarrow> (Inl Panic, s\<lparr>rng := []\<rparr>)
           | Some (n, rest) \<Rightarrow> (Inr n, s\<lparr>rng := rest\<rparr>))"

text \<open>\<open>Path\<close>: \<open>height\<close> bucket indices, starting at the leaf's bucket and following the
  parent \<open>(bucket - 1) / 2\<close>.  The leaf is the caller's, so the sums may wrap.\<close>

fun pathFrom :: "nat \<Rightarrow> int \<Rightarrow> int list" where
  "pathFrom 0 bucket = []"
| "pathFrom (Suc n) bucket = bucket # pathFrom n (goDiv (wrap64 (bucket - 1)) 2)"

definition leafBucket :: "PathORAM \<Rightarrow> int \<Rightarrow> int" where
  "leafBucket s lf = wrap64 (wrap64 (numLeaves s - 1) + lf)"

definition Path :: "PathORAM \<Rightarrow> int \<Rightarrow> int list" where
  "Path s lf = pathFrom (nat (height s)) (leafBucket s lf)"

text \<open>The loop of \<open>canPlaceAt\<close>: \<open>for b := leafBucket; b >= 0; b = (b - 1) / 2\<close>, leaving with
  \<open>true\<close> on a hit and with \<open>false\<close> after the root.  Here \<open>b - 1\<close> is at least \<open>-1\<close>.\<close>

function canPlaceFrom :: "int \<Rightarrow> int \<Rightarrow> bool" where
  "canPlaceFrom b bucketIdx =
     (if b \<ge> 0 then
        (if b = bucketIdx then True
         else if b = 0 then False
         else canPlaceFrom (goDiv (b - 1) 2) bucketIdx)
      else False)"
  by pat_completeness auto
termination
  by (relation "measure (\<lambda>(b, i). nat b)") (auto simp: goDiv_def sgn_if)

definition canPlaceAt :: "PathORAM \<Rightarrow> int \<Rightarrow> int \<Rightarrow> bool" where
  "canPlaceAt s lf bucketIdx = canPlaceFrom (leafBucket s lf) bucketIdx"

definition blockToStorage :: "block \<Rightarrow> error + Block" where
  "blockToStorage b =
     (case Encrypt (id' b) (leaf b) (data b) of
        Inl e \<Rightarrow> Inl Panic
      | Inr ciphertext \<Rightarrow> Inr \<lparr>ID = id' b, Leaf = leaf b, Data = ciphertext\<rparr>)"

text \<open>\<open>findInStash\<close>: the first stash entry with the id, and a copy of its data in a fresh
  slice of \<open>BlockSize\<close> bytes; index \<open>-1\<close> and a nil slice when there is none.\<close>

fun findFrom :: "int \<Rightarrow> int \<Rightarrow> int \<Rightarrow> block list \<Rightarrow> error + int \<times> byte list" where
  "findFrom bsz blockID i [] = Inr (-1, [])"
| "findFrom bsz blockID i (b # bs) =
     (if id' b = blockID then
        (if makeOk 1 bsz then Inr (i, copy (makeBytes bsz) (data b)) else Inl Panic)
      else findFrom bsz blockID (i + 1) bs)"

definition findInStash :: "PathORAM \<Rightarrow> int \<Rightarrow> error + int \<times> byte list" where
  "findInStash s blockID = findFrom (BlockSize (cfg s)) blockID 0 (stash s)"

text \<open>The inner loop of \<open>readPathIntoStash\<close> over the slots of one bucket: every non-empty
  slot is decrypted, appended to the stash and marked empty.\<close>

fun drainBucket :: "Block list \<Rightarrow> block list \<Rightarrow> (error + Block list) \<times> block list" where
  "drainBucket [] st = (Inr [], st)"
| "drainBucket (b # bs) st =
     (if ID b \<noteq> EmptyBlockID then
        (case Decrypt (ID b) (Leaf b) (Data b) of
           Inl e \<Rightarrow> (Inl e, st)
         | Inr plaintext \<Rightarrow>
             (case drainBucket bs (st @ [\<lparr>id' = ID b, leaf = Leaf b, data = plaintext\<rparr>]) of
                (Inl e, st') \<Rightarrow> (Inl e, st')
              | (Inr bs', st') \<Rightarrow> (Inr (b\<lparr>ID := EmptyBlockID\<rparr> # bs'), st')))
      else
        (case drainBucket bs st of
           (Inl e, st') \<Rightarrow> (Inl e, st')
         | (Inr bs', st') \<Rightarrow> (Inr (b # bs'), st')))"

fun readPathIntoStash :: "PathORAM \<Rightarrow> int list \<Rightarrow> error option \<times> PathORAM" where
  "readPathIntoStash s [] = (None, s)"
| "readPathIntoStash s (bucketIdx # path) =
     (case ReadBucket (storage s) bucketIdx of
        (Inl e, sto) \<Rightarrow> (Some e, s\<lparr>storage := sto\<rparr>)
      | (Inr bucket, sto) \<Rightarrow>
          (case drainBucket bucket (stash s) of
             (Inl e, st) \<Rightarrow> (Some e, s\<lparr>storage := sto, stash := st\<rparr>)
           | (Inr bucket', st) \<Rightarrow>
               (case WriteBucket sto bucketIdx bucket' of
                  (Some e, sto') \<Rightarrow> (Some e, s\<lparr>storage := sto', stash := st\<rparr>)
                | (None, sto') \<Rightarrow>
                    readPathIntoStash (s\<lparr>storage := sto', stash := st\<rparr>) path)))"

section \<open>eviction.go\<close>

text \<open>The stash scan of \<open>evict\<close>: the first block that may be placed is taken out of the
  stash, the order of the others is kept (\<open>append(stash[:i], stash[i+1:]...)\<close>).\<close>

fun pickFirst :: "(block \<Rightarrow> bool) \<Rightarrow> block list \<Rightarrow> (block \<times> block list) option" where
  "pickFirst P [] = None"
| "pickFirst P (b # bs) =
     (if P b then Some (b, bs)
      else case pickFirst P bs of None \<Rightarrow> None | Some (c, rest) \<Rightarrow> Some (c, b # rest))"

text \<open>The slot loop of \<open>evict\<close> for one bucket, \<open>slot = 0 .. BucketSize - 1\<close>.\<close>

fun evictSlots ::
  "PathORAM \<Rightarrow> int \<Rightarrow> nat list \<Rightarrow> Block list \<Rightarrow> bool \<Rightarrow> (error + Block list \<times> bool) \<times> PathORAM" where
  "evictSlots s bucketIdx [] bucket modified = (Inr (bucket, modified), s)"
| "evictSlots s bucketIdx (slot # slots) bucket modified =
     (if length bucket \<le> slot then (Inl Panic, s)
      else if ID (bucket ! slot) \<noteq> EmptyBlockID then evictSlots s bucketIdx slots bucket modified
      else
        case pickFirst (\<lambda>b. canPlaceAt s (leaf b) bucketIdx) (stash s) of
          None \<Rightarrow> evictSlots s bucketIdx slots bucket modified
        | Some (b, rest) \<Rightarrow>
            (case blockToStorage b of
               Inl e \<Rightarrow> (Inl e, s)
             | Inr sb \<Rightarrow>
                 evictSlots (s\<lparr>stash := rest\<rparr>) bucketIdx slots (bucket[slot := sb]) True))"

fun evictLevels :: "PathORAM \<Rightarrow> int list \<Rightarrow> error option \<times> PathORAM" where
  "evictLevels s [] = (None, s)"
| "evictLevels s (bucketIdx # path) =
     (case ReadBucket (storage s) bucketIdx of
        (Inl e, sto) \<Rightarrow> (Some e, s\<lparr>storage := sto\<rparr>)
      | (Inr bucket, sto) \<Rightarrow>
          (case evictSlots (s\<lparr>storage := sto\<rparr>) bucketIdx [0..<nat (BucketSize (cfg s))] bucket False of
             (Inl e, s1) \<Rightarrow> (Some e, s1)
           | (Inr (bucket', modified), s1) \<Rightarrow>
               if modified then
                 (case WriteBucket (storage s1) bucketIdx bucket' of
                    (Some e, sto') \<Rightarrow> (Some e, s1\<lparr>storage := sto'\<rparr>)
                  | (None, sto') \<Rightarrow> evictLevels (s1\<lparr>storage := sto'\<rparr>) path)
               else evictLevels s1 path))"

definition evict :: "PathORAM \<Rightarrow> int list \<Rightarrow> error option \<times> PathORAM" where
  "evict s path =
     (case evictLevels s path of
        (Some e, s1) \<Rightarrow> (Some e, s1)
      | (None, s1) \<Rightarrow>
          if int (length (stash s1)) > StashLimit (cfg s1) then (Some ErrStashOverflow, s1)
          else (None, s1))"

text \<open>Reading all buckets of the path into a local slice, and writing the slice back.\<close>

fun readBuckets :: "InMemoryStorage \<Rightarrow> int list \<Rightarrow> (error + Block list list) \<times> InMemoryStorage" where
  "readBuckets sto [] = (Inr [], sto)"
| "readBuckets sto (bucketIdx # path) =
     (case ReadBucket sto bucketIdx of
        (Inl e, sto1) \<Rightarrow> (Inl e, sto1)
      | (Inr bk, sto1) \<Rightarrow>
          (case readBuckets sto1 path of
             (Inl e, sto2) \<Rightarrow> (Inl e, sto2)
           | (Inr bks, sto2) \<Rightarrow> (Inr (bk # bks), sto2)))"

fun writeBuckets :: "InMemoryStorage \<Rightarrow> int list \<Rightarrow> Block list list \<Rightarrow> error option \<times> InMemoryStorage" where
  "writeBuckets sto [] bks = (None, sto)"
| "writeBuckets sto (bucketIdx # path) [] = (Some Panic, sto)"
| "writeBuckets sto (bucketIdx # path) (bk # bks) =
     (case WriteBucket sto bucketIdx bk of
        (Some e, sto1) \<Rightarrow> (Some e, sto1)
      | (None, sto1) \<Rightarrow> writeBuckets sto1 path bks)"

fun firstEmpty :: "Block list \<Rightarrow> nat option" where
  "firstEmpty [] = None"
| "firstEmpty (x # xs) =
     (if ID x = EmptyBlockID then Some 0 else map_option Suc (firstEmpty xs))"

text \<open>The level loop of \<open>evictGreedyByDepth\<close> for one stash block: the first level, leaf
  first, whose bucket admits the block and has an empty slot.  \<open>None\<close> is \<open>placed = false\<close>.\<close>

fun tryPlace :: "PathORAM \<Rightarrow> block \<Rightarrow> int list \<Rightarrow> Block list list \<Rightarrow> error + Block list list option" where
  "tryPlace s b [] bks = Inr None"
| "tryPlace s b (bucketIdx # path) [] = Inl Panic"
| "tryPlace s b (bucketIdx # path) (bk # bks) =
     (if \<not> canPlaceAt s (leaf b) bucketIdx then
        map_sum (\<lambda>e. e) (map_option ((#) bk)) (tryPlace s b path bks)
      else
        case firstEmpty bk of
          Some slot \<Rightarrow>
            (case blockToStorage b of
               Inl e \<Rightarrow> Inl e
             | Inr sb \<Rightarrow> Inr (Some (bk[slot := sb] # bks)))
        | None \<Rightarrow> map_sum (\<lambda>e. e) (map_option ((#) bk)) (tryPlace s b path bks))"

text \<open>The stash loop \<open>for i < len(o.stash)\<close>: a placed block is overwritten by the last
  stash entry and the stash shrinks by one; otherwise \<open>i\<close> advances.\<close>

function greedyLoop ::
  "PathORAM \<Rightarrow> int list \<Rightarrow> Block list list \<Rightarrow> nat \<Rightarrow> (error + Block list list) \<times> PathORAM" where
  "greedyLoop s path bks i =
     (if i < length (stash s) then
        (case tryPlace s (stash s ! i) path bks of
           Inl e \<Rightarrow> (Inl e, s)
         | Inr (Some bks') \<Rightarrow>
             greedyLoop (s\<lparr>stash := butlast ((stash s)[i := last (stash s)])\<rparr>) path bks' i
         | Inr None \<Rightarrow> greedyLoop s path bks (i + 1))
      else (Inr bks, s))"
  by pat_completeness auto
termination
  by (relation "measure (\<lambda>(s, path, bks, i). length (stash s) - i)") auto

definition evictGreedyByDepth :: "PathORAM \<Rightarrow> int list \<Rightarrow> error option \<times> PathORAM" where
  "evictGreedyByDepth s path =
     (case readBuckets (storage s) path of
        (Inl e, sto) \<Rightarrow> (Some e, s\<lparr>storage := sto\<rparr>)
      | (Inr bks, sto) \<Rightarrow>
          (case greedyLoop (s\<lparr>storage := sto\<rparr>) path bks 0 of
             (Inl e, s1) \<Rightarrow> (Some e, s1)
           | (Inr bks', s1) \<Rightarrow>
               (case writeBuckets (storage s1) path bks' of
                  (Some e, sto') \<Rightarrow> (Some e, s1\<lparr>storage := sto'\<rparr>)
                | (None, sto') \<Rightarrow>
                    if int (length (stash s1)) > StashLimit (cfg s1)
                    then (Some ErrStashOverflow, s1\<lparr>storage := sto'\<rparr>)
                    else (None, s1\<lparr>storage := sto'\<rparr>))))"

definition evictWithStrategy :: "PathORAM \<Rightarrow> int list \<Rightarrow> error option \<times> PathORAM" where
  "evictWithStrategy s path =
     (if EvictionStrategy (cfg s) = EvictGreedyByDepth then evictGreedyByDepth s path
      else if EvictionStrategy (cfg s) = EvictDeterministicTwoPath then
        (case evictGreedyByDepth s path of
           (Some e, s1) \<Rightarrow> (Some e, s1)
         | (None, s1) \<Rightarrow>
             (case randomLeaf s1 of
                (Inl e, s2) \<Rightarrow> (Some e, s2)
              | (Inr lf, s2) \<Rightarrow>
                  (let secondPath = Path s2 lf
                   in case readPathIntoStash s2 secondPath of
                        (Some e, s3) \<Rightarrow> (Some e, s3)
                      | (None, s3) \<Rightarrow> evictGreedyByDepth s3 secondPath)))
      else evict s path)"

section \<open>constanttime.go\<close>

text \<open>The primitives of \<open>crypto/subtle\<close> on the values the engine passes: masks are \<open>0\<close> or
  \<open>1\<close>; \<open>ConstantTimeCopy\<close> panics on slices of different lengths.\<close>

definition ConstantTimeEq :: "int \<Rightarrow> int \<Rightarrow> int" where
  "ConstantTimeEq x y = (if x = y then 1 else 0)"

definition ConstantTimeSelect :: "int \<Rightarrow> int \<Rightarrow> int \<Rightarrow> int" where
  "ConstantTimeSelect v x y = (if v = 1 then x else y)"

definition ConstantTimeCopy :: "int \<Rightarrow> byte list \<Rightarrow> byte list \<Rightarrow> error + byte list" where
  "ConstantTimeCopy v x y =
     (if length x \<noteq> length y then Inl Panic else Inr (if v = 1 then y else x))"

fun findCT :: "int \<Rightarrow> nat \<Rightarrow> block list \<Rightarrow> int \<Rightarrow> byte list \<Rightarrow> error + int \<times> byte list" where
  "findCT blockID i [] foundIdx result = Inr (foundIdx, result)"
| "findCT blockID i (b # bs) foundIdx result =
     (let match = ConstantTimeEq (int32 (id' b)) (int32 blockID)
      in case ConstantTimeCopy match result (data b) of
           Inl e \<Rightarrow> Inl e
         | Inr result' \<Rightarrow>
             findCT blockID (i + 1) bs (ConstantTimeSelect match (int i) foundIdx) result')"

definition findInStashConstantTime :: "PathORAM \<Rightarrow> int \<Rightarrow> error + int \<times> byte list" where
  "findInStashConstantTime s blockID =
     (if makeOk 1 (BlockSize (cfg s))
      then findCT blockID 0 (stash s) (-1) (makeBytes (BlockSize (cfg s)))
      else Inl Panic)"

definition canPlaceAtConstantTime :: "PathORAM \<Rightarrow> int \<Rightarrow> int \<Rightarrow> bool" where
  "canPlaceAtConstantTime s lf bucketIdx =
     (let found = fold (\<lambda>level found.
                    found OR ConstantTimeEq
                      (int32 (((\<lambda>b. goDiv (wrap64 (b - 1)) 2) ^^ level) (leafBucket s lf)))
                      (int32 bucketIdx))
                    [0..<nat (height s)] 0
      in found = 1)"

text \<open>The slot loop, the level loop and the stash loop of \<open>evictConstantTime\<close>.\<close>

fun ctSlots :: "block \<Rightarrow> int \<Rightarrow> Block list \<Rightarrow> int \<Rightarrow> error + Block list \<times> int" where
  "ctSlots b canPlace [] placed = Inr ([], placed)"
| "ctSlots b canPlace (x # xs) placed =
     (let isEmpty = ConstantTimeEq (int32 (ID x)) (int32 EmptyBlockID);
          shouldPlace = canPlace AND isEmpty AND (1 XOR placed)
      in if shouldPlace = 1 then
           (case blockToStorage b of
              Inl e \<Rightarrow> Inl e
            | Inr sb \<Rightarrow>
                (case ctSlots b canPlace xs 1 of
                   Inl e \<Rightarrow> Inl e
                 | Inr (xs', p) \<Rightarrow> Inr (sb # xs', p)))
         else
           (case ctSlots b canPlace xs placed of
              Inl e \<Rightarrow> Inl e
            | Inr (xs', p) \<Rightarrow> Inr (x # xs', p)))"

fun ctLevels ::
  "PathORAM \<Rightarrow> block \<Rightarrow> int list \<Rightarrow> Block list list \<Rightarrow> int \<Rightarrow> error + Block list list \<times> int" where
  "ctLevels s b [] bks placed = Inr (bks, placed)"
| "ctLevels s b (bucketIdx # path) [] placed = Inl Panic"
| "ctLevels s b (bucketIdx # path) (bk # bks) placed =
     (let canPlace = (if canPlaceAtConstantTime s (leaf b) bucketIdx then 1 else 0)
      in case ctSlots b canPlace bk placed of
           Inl e \<Rightarrow> Inl e
         | Inr (bk', p1) \<Rightarrow>
             (case ctLevels s b path bks p1 of
                Inl e \<Rightarrow> Inl e
              | Inr (bks', p2) \<Rightarrow> Inr (bk' # bks', p2)))"

fun ctStash ::
  "PathORAM \<Rightarrow> int list \<Rightarrow> block list \<Rightarrow> Block list list \<Rightarrow> block list
     \<Rightarrow> error + Block list list \<times> block list" where
  "ctStash s path [] bks newStash = Inr (bks, newStash)"
| "ctStash s path (b # bs) bks newStash =
     (case ctLevels s b path bks 0 of
        Inl e \<Rightarrow> Inl e
      | Inr (bks', placed) \<Rightarrow>
          ctStash s path bs bks' (if placed = 0 then newStash @ [b] else newStash))"

definition evictConstantTime :: "PathORAM \<Rightarrow> int list \<Rightarrow> error option \<times> PathORAM" where
  "evictConstantTime s path =
     (case readBuckets (storage s) path of
        (Inl e, sto) \<Rightarrow> (Some e, s\<lparr>storage := sto\<rparr>)
      | (Inr bks, sto) \<Rightarrow>
          (case ctStash s path (stash s) bks [] of
             Inl e \<Rightarrow> (Some e, s\<lparr>storage := sto\<rparr>)
           | Inr (bks', newStash) \<Rightarrow>
               (case writeBuckets sto path bks' of
                  (Some e, sto') \<Rightarrow> (Some e, s\<lparr>storage := sto', stash := newStash\<rparr>)
                | (None, sto') \<Rightarrow>
                    if int (length newStash) > StashLimit (cfg s)
                    then (Some ErrStashOverflow, s\<lparr>storage := sto', stash := newStash\<rparr>)
                    else (None, s\<lparr>storage := sto', stash := newStash\<rparr>))))"

section \<open>oram.go: the access protocol\<close>

text \<open>The steps of \<open>access\<close> in the order of the source: the leaf of the block (a fresh one
  when the position map has none), the remapping to a second fresh leaf, the draining of
  the path, the search of the stash, the update of the block (a new block when it was not
  found, which allocates the zero result and the payload with \<open>make([]byte, BlockSize)\<close>),
  and the eviction.\<close>

definition access :: "PathORAM \<Rightarrow> int \<Rightarrow> byte list option \<Rightarrow> (error + byte list) \<times> PathORAM" where
  "access s blockID newData =
     (case (case Get (posMap s) blockID of
              (lf, True) \<Rightarrow> (Inr lf, s)
            | (lf, False) \<Rightarrow> randomLeaf s) of
        (Inl e, s1) \<Rightarrow> (Inl e, s1)
      | (Inr lf, s1) \<Rightarrow>
     (case randomLeaf s1 of
        (Inl e, s2) \<Rightarrow> (Inl e, s2)
      | (Inr newLf, s2) \<Rightarrow>
     (let s3 = s2\<lparr>posMap := Set (posMap s2) blockID newLf\<rparr>;
          path = Path s3 lf
      in case readPathIntoStash s3 path of
        (Some e, s4) \<Rightarrow> (Inl e, s4)
      | (None, s4) \<Rightarrow>
     (case (if ConstantTime (cfg s4) then findInStashConstantTime s4 blockID
            else findInStash s4 blockID) of
        Inl e \<Rightarrow> (Inl e, s4)
      | Inr (foundIdx, found) \<Rightarrow>
     if foundIdx = -1 \<and> \<not> makeOk 1 (BlockSize (cfg s4)) then (Inl Panic, s4) else
     (let newLeaf = fst (Get (posMap s4) blockID);
          result = (if foundIdx = -1 then makeBytes (BlockSize (cfg s4)) else found);
          s5 = (if foundIdx = -1 then
                  s4\<lparr>stash := stash s4 @
                     [\<lparr>id' = blockID, leaf = newLeaf,
                       data = (case newData of
                                 None \<Rightarrow> makeBytes (BlockSize (cfg s4))
                               | Some d \<Rightarrow> copy (makeBytes (BlockSize (cfg s4))) d)\<rparr>]\<rparr>
                else
                  s4\<lparr>stash := (stash s4)[nat foundIdx :=
                     (stash s4 ! nat foundIdx)
                       \<lparr>leaf := newLeaf,
                        data := (case newData of
                                   None \<Rightarrow> data (stash s4 ! nat foundIdx)
                                 | Some d \<Rightarrow> copy (data (stash s4 ! nat foundIdx)) d)\<rparr>]\<rparr>)
      in case (if ConstantTime (cfg s5) then evictConstantTime s5 path
               else evictWithStrategy s5 path) of
        (Some e, s6) \<Rightarrow> (Inl e, s6)
      | (None, s6) \<Rightarrow> (Inr result, s6))))))"

text \<open>The public entry points.  A nil slice is \<open>None\<close>; its length is \<open>0\<close>.\<close>

definition len :: "byte list option \<Rightarrow> int" where
  "len d = (case d of None \<Rightarrow> 0 | Some bs \<Rightarrow> int (length bs))"

definition Access :: "PathORAM \<Rightarrow> int \<Rightarrow> byte list option \<Rightarrow> (error + byte list) \<times> PathORAM" where
  "Access s blockID newData =
     (if blockID < 0 \<or> blockID \<ge> NumBlocks (cfg s) then (Inl ErrInvalidBlockID, s)
      else if newData \<noteq> None \<and> len newData \<noteq> BlockSize (cfg s) then (Inl ErrInvalidDataSize, s)
      else access s blockID newData)"

definition Read :: "PathORAM \<Rightarrow> int \<Rightarrow> (error + byte list) \<times> PathORAM" where
  "Read s blockID =
     (if blockID < 0 \<or> blockID \<ge> NumBlocks (cfg s) then (Inl ErrInvalidBlockID, s)
      else case access s blockID None of
             (Inl e, s1) \<Rightarrow> (Inl e, s1)
           | (Inr d, s1) \<Rightarrow> (Inr d, s1))"

definition Write :: "PathORAM \<Rightarrow> int \<Rightarrow> byte list option \<Rightarrow> (error + byte list) \<times> PathORAM" where
  "Write s blockID d =
     (if blockID < 0 \<or> blockID \<ge> NumBlocks (cfg s) then (Inl ErrInvalidBlockID, s)
      else if len d \<noteq> BlockSize (cfg s) then (Inl ErrInvalidDataSize, s)
      else access s blockID d)"

section \<open>Concrete engines\<close>

definition cfg7 :: Config where
  "cfg7 = \<lparr>NumBlocks = 7, BlockSize = 2, BucketSize = 1, StashLimit = 100,
            EvictionStrategy = EvictLevelByLevel, ConstantTime = False\<rparr>"

definition eng7 :: PathORAM where
  "eng7 = \<lparr>cfg = cfg7, height = 3, numLeaves = 4,
            storage = \<lparr>buckets = replicate 7 [\<lparr>ID = -1, Leaf = -1, Data = [0, 0]\<rparr>],
                        bucketSize = 1, blockSize = 2, calls = []\<rparr>,
            posMap = Map.empty, stash = [], rng = []\<rparr>"



section \<open>Invariants of the engine\<close>

text \<open>The blocks the engine holds: the non-empty slots of the tree, read as internal blocks,
  and the stash.\<close>

definition fromBlock :: "Block \<Rightarrow> block" where
  "fromBlock b = \<lparr>id' = ID b, leaf = Leaf b, data = Data b\<rparr>"

definition toBlock :: "block \<Rightarrow> Block" where
  "toBlock b = \<lparr>ID = id' b, Leaf = leaf b, Data = data b\<rparr>"

definition occupied :: "Block list \<Rightarrow> block list" where
  "occupied bk = map fromBlock (filter (\<lambda>b. ID b \<noteq> EmptyBlockID) bk)"

definition treeBlocks :: "PathORAM \<Rightarrow> block list" where
  "treeBlocks s = occupied (concat (buckets (storage s)))"

definition allBlocks :: "PathORAM \<Rightarrow> block multiset" where
  "allBlocks s = mset (treeBlocks s) + mset (stash s)"

text \<open>The payload the engine holds for a block id: that of the block with this id in the
  stash or the tree, and all zeros when there is none.\<close>

definition valueOf :: "PathORAM \<Rightarrow> int \<Rightarrow> byte list" where
  "valueOf s i =
     (case find (\<lambda>b. id' b = i) (stash s @ treeBlocks s) of
        None \<Rightarrow> makeBytes (BlockSize (cfg s))
      | Some b \<Rightarrow> data b)"

definition geometry :: "PathORAM \<Rightarrow> bool" where
  "geometry s \<longleftrightarrow>
     0 < NumBlocks (cfg s) \<and> 0 < BlockSize (cfg s) \<and> BlockSize (cfg s) \<le> maxAlloc
     \<and> 0 < BucketSize (cfg s)
     \<and> 1 \<le> height s \<and> height s \<le> 62 \<and> numLeaves s = 2 ^ (nat (height s) - 1)
     \<and> int (length (buckets (storage s))) = 2 ^ nat (height s) - 1
     \<and> bucketSize (storage s) = BucketSize (cfg s)
     \<and> (\<forall>bk \<in> set (buckets (storage s)). int (length bk) = BucketSize (cfg s))"

text \<open>Placement: a non-empty block in bucket \<open>i\<close> of the tree has a leaf whose leaf-to-root
  path contains \<open>i\<close>.\<close>

definition placement :: "PathORAM \<Rightarrow> bool" where
  "placement s \<longleftrightarrow>
     (\<forall>i < length (buckets (storage s)). \<forall>b \<in> set (buckets (storage s) ! i).
        ID b \<noteq> EmptyBlockID \<longrightarrow> int i \<in> set (Path s (Leaf b)))"

definition consistent :: "PathORAM \<Rightarrow> bool" where
  "consistent s \<longleftrightarrow>
     (\<forall>b \<in># allBlocks s.
        0 \<le> id' b \<and> id' b < NumBlocks (cfg s) \<and> posMap s (id' b) = Some (leaf b)
        \<and> length (data b) = nat (BlockSize (cfg s)))
     \<and> distinct (map id' (stash s @ treeBlocks s))
     \<and> dom (posMap s) = id' ` set_mset (allBlocks s)
     \<and> (\<forall>i lf. posMap s i = Some lf \<longrightarrow> 0 \<le> lf \<and> lf < numLeaves s)"

definition inv :: "PathORAM \<Rightarrow> bool" where
  "inv s \<longleftrightarrow> geometry s \<and> placement s \<and> consistent s"

text \<open>The constant-time code compares block ids and bucket indices after converting them to
  \<open>int32\<close>; the conversions are exact for engines in this range.\<close>

definition ctSafe :: "PathORAM \<Rightarrow> bool" where
  "ctSafe s \<longleftrightarrow> (ConstantTime (cfg s) \<longrightarrow> NumBlocks (cfg s) < 2 ^ 32 - 1 \<and> height s \<le> 32)"

text \<open>The engines a client of \<open>NewInMemory c\<close> can hold: the fresh one, and what the public
  operations leave behind, whatever they return.  The entropy source is outside the engine
  and may deliver anything.\<close>

inductive reachable :: "Config \<Rightarrow> PathORAM \<Rightarrow> bool" where
  fresh: "NewInMemory c entropy = Inr s \<Longrightarrow> reachable c s"
| after_Access: "reachable c s \<Longrightarrow> reachable c (snd (Access s blockID newData))"
| after_Read: "reachable c s \<Longrightarrow> reachable c (snd (Read s blockID))"
| after_Write: "reachable c s \<Longrightarrow> reachable c (snd (Write s blockID d))"
| entropy: "reachable c s \<Longrightarrow> reachable c (s\<lparr>rng := r\<rparr>)"

text \<open>Auxiliary notions for the proofs: the shape of the store, and the store calls of
  draining a path.\<close>

definition shape :: "InMemoryStorage \<Rightarrow> int \<Rightarrow> bool" where
  "shape sto z \<longleftrightarrow> bucketSize sto = z \<and> (\<forall>bk \<in> set (buckets sto). int (length bk) = z)"

definition emptied :: "Block \<Rightarrow> Block" where
  "emptied b = b\<lparr>ID := EmptyBlockID\<rparr>"

definition drainCalls :: "int list \<Rightarrow> StoreCall list" where
  "drainCalls path = concat (map (\<lambda>i. [ReadCall i, WriteCall i]) path)"

text \<open>What an eviction along \<open>path\<close> may do to the buckets \<open>bs\<close> and the stash \<open>st\<close>: blocks
  leave the stash for slots of path buckets that admit them; nothing else changes.\<close>

definition evicted ::
  "PathORAM \<Rightarrow> int list \<Rightarrow> Block list list \<Rightarrow> block list \<Rightarrow> Block list list \<Rightarrow> block list \<Rightarrow> bool" where
  "evicted s path bs st bs' st' \<longleftrightarrow>
     length bs' = length bs
     \<and> (\<forall>i<length bs.
           length (bs' ! i) = length (bs ! i)
           \<and> (int i \<notin> set path \<longrightarrow> bs' ! i = bs ! i)
           \<and> (\<forall>b\<in>set (bs' ! i). ID b \<noteq> EmptyBlockID \<longrightarrow>
                 b \<in> set (bs ! i) \<or> canPlaceAt s (Leaf b) (int i)))
     \<and> mset (occupied (concat bs')) + mset st' = mset (occupied (concat bs)) + mset st
     \<and> set st' \<subseteq> set st"

text \<open>The store calls of the level-by-level eviction: every bucket is read, and written
  back when \<open>modified\<close> is set.\<close>

fun lblCalls :: "int list \<Rightarrow> bool list \<Rightarrow> StoreCall list" where
  "lblCalls (i # path) (m # ms) = ReadCall i # (if m then [WriteCall i] else []) @ lblCalls path ms"
| "lblCalls path ms = []"

text \<open>The greedy and the constant-time eviction work on a local copy \<open>bks\<close> of the path
  buckets, one per level, and write it back at the end (\<open>commit\<close>).\<close>

fun commit :: "Block list list \<Rightarrow> int list \<Rightarrow> Block list list \<Rightarrow> Block list list" where
  "commit bs (i # path) (bk # bks) = commit (bs[nat i := bk]) path bks"
| "commit bs path bks = bs"

definition placedOn ::
  "PathORAM \<Rightarrow> int list \<Rightarrow> Block list list \<Rightarrow> block list \<Rightarrow> Block list list \<Rightarrow> block list \<Rightarrow> bool" where
  "placedOn s path bks st bks' st' \<longleftrightarrow>
     length bks' = length bks
     \<and> (\<forall>lv<length bks.
           length (bks' ! lv) = length (bks ! lv)
           \<and> (\<forall>b\<in>set (bks' ! lv). ID b \<noteq> EmptyBlockID \<longrightarrow>
                 b \<in> set (bks ! lv) \<or> canPlaceAt s (Leaf b) (path ! lv)))
     \<and> mset (occupied (concat bks')) + mset st' = mset (occupied (concat bks)) + mset st
     \<and> set st' \<subseteq> set st"

section \<open>Tree geometry\<close>


lemma goDiv_parent_root: "goDiv (0 - 1) 2 = 0"
  by (simp add: goDiv_def)


lemma wrap64_id: "- (2 ^ 63) \<le> x \<Longrightarrow> x < 2 ^ 63 \<Longrightarrow> wrap64 x = x"
  unfolding wrap64_def by (simp add: mod_pos_pos_trivial)

lemma wrap64_range: "- (2 ^ 63) \<le> wrap64 x \<and> wrap64 x < 2 ^ 63"
  unfolding wrap64_def
  using pos_mod_bound[of "2^64" "x + 2^63"] pos_mod_sign[of "2^64" "x + 2^63"] by simp

lemma pow_lt_63: "h < 63 \<Longrightarrow> (2::int) ^ h < 2 ^ 63"
  by (rule power_strict_increasing) auto

lemma wrap64_pow: "h < 63 \<Longrightarrow> wrap64 (2 ^ h) = 2 ^ h"
  by (rule wrap64_id) (use pow_lt_63[of h] in \<open>auto intro: order_trans[of _ 0]\<close>)

lemma wrap64_pow_m1: "h < 63 \<Longrightarrow> wrap64 (wrap64 (2 ^ h) - 1) = 2 ^ h - 1"
proof -
  assume h: "h < 63"
  have pos: "(0::int) < 2 ^ h" by simp
  have "wrap64 (2 ^ h - 1) = 2 ^ h - 1"
  proof (rule wrap64_id)
    have "(0::int) < 2 ^ 63" by simp
    then show "- (2 ^ 63) \<le> (2::int) ^ h - 1" using pos by linarith
    show "(2::int) ^ h - 1 < 2 ^ 63" using pow_lt_63[OF h] by linarith
  qed
  then show ?thesis by (simp only: wrap64_pow[OF h])
qed

lemma wrap64_pow63_m1: "wrap64 (wrap64 (2 ^ 63) - 1) = 2 ^ 63 - 1"
  by (simp add: wrap64_def)

lemma heightLoop_guard: "nb < 2 ^ 63 \<Longrightarrow> \<not> wrap64 (wrap64 (2 ^ 63) - 1) < nb"
  by (simp only: wrap64_pow63_m1)

declare heightLoop.simps [simp del]

lemma heightLoop_bounds: "h \<le> 63 \<Longrightarrow> h \<le> heightLoop nb h \<and> heightLoop nb h \<le> 63"
proof (induction nb h rule: heightLoop.induct)
  case (1 nb h)
  show ?case
  proof (cases "h < 63 \<and> wrap64 (wrap64 (2 ^ h) - 1) < nb")
    case True
    then have "h + 1 \<le> 63" by simp
    from 1(1)[OF True this] show ?thesis
      by (subst heightLoop.simps, subst (2) heightLoop.simps) (use True in auto)
  next
    case False
    then show ?thesis using 1(2) by (subst heightLoop.simps, subst (2) heightLoop.simps) auto
  qed
qed








lemma ComputeTreeParams_shape:
  assumes "BucketSize c \<noteq> 0"
  shows "\<exists>h. ComputeTreeParams c = Inr (int h, 2 ^ (h - 1), 2 ^ h - 1) \<and> 1 \<le> h \<and> h \<le> 63
           \<and> h = heightLoop (wrap64 (goDiv (wrap64 (wrap64 (NumBlocks c + BucketSize c) - 1)) (BucketSize c))) 1"
proof -
  define nb where "nb = wrap64 (goDiv (wrap64 (wrap64 (NumBlocks c + BucketSize c) - 1)) (BucketSize c))"
  define h where "h = heightLoop nb 1"
  have hb: "1 \<le> h" "h \<le> 63" using heightLoop_bounds[of 1 nb] by (simp_all add: h_def)
  have l: "wrap64 (2 ^ (h - 1)) = 2 ^ (h - 1)" using hb by (intro wrap64_pow) simp
  have t: "wrap64 (wrap64 (2 ^ h) - 1) = 2 ^ h - 1"
  proof (cases "h < 63")
    case True then show ?thesis by (rule wrap64_pow_m1)
  next
    case False
    with hb have "h = 63" by simp
    then show ?thesis by (simp only: wrap64_pow63_m1)
  qed
  have "ComputeTreeParams c = Inr (int h, wrap64 (2 ^ (h - 1)), wrap64 (wrap64 (2 ^ h) - 1))"
    unfolding ComputeTreeParams_def Let_def h_def nb_def using assms by (simp only: if_False)
  then have "ComputeTreeParams c = Inr (int h, 2 ^ (h - 1), 2 ^ h - 1)"
    by (simp only: l t)
  then show ?thesis using hb unfolding h_def nb_def by blast
qed

lemma Validate_Inr:
  "Validate c = Inr c' \<Longrightarrow>
     0 < NumBlocks c' \<and> 0 < BlockSize c' \<and> BucketSize c' \<noteq> 0 \<and> StashLimit c' \<noteq> 0
     \<and> NumBlocks c' = NumBlocks c \<and> BlockSize c' = BlockSize c
     \<and> EvictionStrategy c' = EvictionStrategy c \<and> ConstantTime c' = ConstantTime c
     \<and> BucketSize c' = (if BucketSize c = 0 then 5 else BucketSize c)
     \<and> StashLimit c' = (if StashLimit c = 0 then 100 else StashLimit c)"
  by (auto simp: Validate_def Let_def split: if_splits)

lemma Validate_idem: "Validate c = Inr c' \<Longrightarrow> Validate c' = Inr c'"
  by (auto simp: Validate_def Let_def split: if_splits)

lemma Validate_ok:
  "0 < NumBlocks c \<Longrightarrow> 0 < BlockSize c \<Longrightarrow> \<exists>c'. Validate c = Inr c'"
  by (simp add: Validate_def Let_def)

lemma makeOk_pow:
  assumes "makeOk 24 (2 ^ h - 1)"
  shows "h \<le> 44"
proof (rule ccontr)
  assume "\<not> h \<le> 44"
  then have "45 \<le> h" by simp
  then have "(2::int) ^ 45 \<le> 2 ^ h" by (intro power_increasing) auto
  moreover have "24 * ((2::int) ^ h - 1) \<le> 2 ^ 48" using assms by (simp add: makeOk_def maxAlloc_def)
  ultimately show False by simp
qed

text \<open>What \<open>NewInMemory\<close> returns for a configuration that passes \<open>Validate\<close>: the fresh
  engine if the store can be allocated, and a panic otherwise.\<close>

lemma NewInMemory_eq:
  assumes v: "Validate c = Inr c'"
  shows "\<exists>h. 1 \<le> h \<and> h \<le> 63
     \<and> h = heightLoop (wrap64 (goDiv (wrap64 (wrap64 (NumBlocks c' + BucketSize c') - 1)) (BucketSize c'))) 1
     \<and> NewInMemory c entropy =
         (if makeOk 24 (2 ^ h - 1) \<and> makeOk 40 (BucketSize c') \<and> makeOk 1 (BlockSize c')
          then Inr \<lparr>cfg = c', height = int h, numLeaves = 2 ^ (h - 1),
                    storage = \<lparr>buckets = replicate (2 ^ h - 1)
                                 (replicate (nat (BucketSize c'))
                                    \<lparr>ID = EmptyBlockID, Leaf = -1, Data = makeBytes (BlockSize c')\<rparr>),
                               bucketSize = BucketSize c', blockSize = BlockSize c', calls = []\<rparr>,
                    posMap = Map.empty, stash = [], rng = entropy\<rparr>
          else Inl Panic)"
proof -
  note vi = Validate_Inr[OF v]
  then have z: "BucketSize c' \<noteq> 0" by simp
  from ComputeTreeParams_shape[OF z] obtain h where
    h: "ComputeTreeParams c' = Inr (int h, 2 ^ (h - 1), 2 ^ h - 1)" "1 \<le> h" "h \<le> 63"
       "h = heightLoop (wrap64 (goDiv (wrap64 (wrap64 (NumBlocks c' + BucketSize c') - 1)) (BucketSize c'))) 1"
    by blast
  have nat_pow: "nat ((2::int) ^ h - 1) = 2 ^ h - 1"
    by (simp add: nat_diff_distrib' nat_power_eq)
  have "(2::int) ^ 1 \<le> 2 ^ h" using h(2) by (intro power_increasing) auto
  then have pos: "0 < (2::int) ^ h - 1" by simp
  have step: "NewInMemory c entropy =
      (case NewInMemoryStorage (2 ^ h - 1) (BucketSize c') (BlockSize c') of
         Inl e \<Rightarrow> Inl e | Inr sto \<Rightarrow> New c' sto Map.empty entropy)"
    by (simp add: NewInMemory_def v h(1))
  have new: "New c' sto Map.empty entropy =
      Inr \<lparr>cfg = c', height = int h, numLeaves = 2 ^ (h - 1), storage = sto,
           posMap = Map.empty, stash = [], rng = entropy\<rparr>" for sto
    by (simp add: New_def Validate_idem[OF v] h(1))
  have zz: "makeOk 40 (BucketSize c') \<Longrightarrow> 0 < BucketSize c'"
    using z by (simp add: makeOk_def)
  have "NewInMemory c entropy =
         (if makeOk 24 (2 ^ h - 1) \<and> makeOk 40 (BucketSize c') \<and> makeOk 1 (BlockSize c')
          then Inr \<lparr>cfg = c', height = int h, numLeaves = 2 ^ (h - 1),
                    storage = \<lparr>buckets = replicate (2 ^ h - 1)
                                 (replicate (nat (BucketSize c'))
                                    \<lparr>ID = EmptyBlockID, Leaf = -1, Data = makeBytes (BlockSize c')\<rparr>),
                               bucketSize = BucketSize c', blockSize = BlockSize c', calls = []\<rparr>,
                    posMap = Map.empty, stash = [], rng = entropy\<rparr>
          else Inl Panic)"
  proof (cases "makeOk 24 (2 ^ h - 1) \<and> makeOk 40 (BucketSize c') \<and> makeOk 1 (BlockSize c')")
    case True
    then have "NewInMemoryStorage (2 ^ h - 1) (BucketSize c') (BlockSize c') =
        Inr \<lparr>buckets = replicate (2 ^ h - 1)
                                 (replicate (nat (BucketSize c'))
                                    \<lparr>ID = EmptyBlockID, Leaf = -1, Data = makeBytes (BlockSize c')\<rparr>),
                               bucketSize = BucketSize c', blockSize = BlockSize c', calls = []\<rparr>"
      by (simp add: NewInMemoryStorage_def nat_pow)
    then show ?thesis using True by (simp add: step new)
  next
    case False
    then have "NewInMemoryStorage (2 ^ h - 1) (BucketSize c') (BlockSize c') = Inl Panic"
      using pos zz by (auto simp: NewInMemoryStorage_def)
    then show ?thesis using False by (simp add: step)
  qed
  then show ?thesis using h(2,3,4) by blast
qed

lemma NewInMemory_Inr:
  assumes "NewInMemory c entropy = Inr s"
  shows "\<exists>h. Validate c = Inr (cfg s) \<and> 0 < BucketSize (cfg s) \<and> 1 \<le> h \<and> h \<le> 44
     \<and> makeOk 1 (BlockSize (cfg s))
     \<and> h = heightLoop (wrap64 (goDiv (wrap64 (wrap64 (NumBlocks (cfg s) + BucketSize (cfg s)) - 1)) (BucketSize (cfg s)))) 1
     \<and> height s = int h \<and> numLeaves s = 2 ^ (h - 1)
     \<and> storage s = \<lparr>buckets = replicate (2 ^ h - 1)
                   (replicate (nat (BucketSize (cfg s)))
                      \<lparr>ID = EmptyBlockID, Leaf = -1, Data = makeBytes (BlockSize (cfg s))\<rparr>),
                 bucketSize = BucketSize (cfg s), blockSize = BlockSize (cfg s), calls = []\<rparr>
     \<and> posMap s = Map.empty \<and> stash s = [] \<and> rng s = entropy"
proof -
  from assms obtain c' where v: "Validate c = Inr c'"
    by (auto simp: NewInMemory_def split: sum.splits)
  from NewInMemory_eq[OF v, of entropy] obtain h where
    h: "1 \<le> h" "h \<le> 63"
       "h = heightLoop (wrap64 (goDiv (wrap64 (wrap64 (NumBlocks c' + BucketSize c') - 1)) (BucketSize c'))) 1"
    and e: "NewInMemory c entropy =
         (if makeOk 24 (2 ^ h - 1) \<and> makeOk 40 (BucketSize c') \<and> makeOk 1 (BlockSize c')
          then Inr \<lparr>cfg = c', height = int h, numLeaves = 2 ^ (h - 1),
                    storage = \<lparr>buckets = replicate (2 ^ h - 1)
                                 (replicate (nat (BucketSize c'))
                                    \<lparr>ID = EmptyBlockID, Leaf = -1, Data = makeBytes (BlockSize c')\<rparr>),
                               bucketSize = BucketSize c', blockSize = BlockSize c', calls = []\<rparr>,
                    posMap = Map.empty, stash = [], rng = entropy\<rparr>
          else Inl Panic)" by blast
  have ok: "makeOk 24 (2 ^ h - 1)" "makeOk 40 (BucketSize c')" "makeOk 1 (BlockSize c')"
    using e assms by (auto split: if_splits)
  have s_eq: "s = \<lparr>cfg = c', height = int h, numLeaves = 2 ^ (h - 1),
                    storage = \<lparr>buckets = replicate (2 ^ h - 1)
                                 (replicate (nat (BucketSize c'))
                                    \<lparr>ID = EmptyBlockID, Leaf = -1, Data = makeBytes (BlockSize c')\<rparr>),
                               bucketSize = BucketSize c', blockSize = BlockSize c', calls = []\<rparr>,
                    posMap = Map.empty, stash = [], rng = entropy\<rparr>"
    using e assms ok by simp
  have c: "cfg s = c'" by (simp add: s_eq)
  have zp: "0 < BucketSize c'" using ok(2) Validate_Inr[OF v] by (simp add: makeOk_def)
  have h44: "h \<le> 44" by (rule makeOk_pow[OF ok(1)])
  have sto': "storage s = \<lparr>buckets = replicate (2 ^ h - 1)
                   (replicate (nat (BucketSize c'))
                      \<lparr>ID = EmptyBlockID, Leaf = -1, Data = makeBytes (BlockSize c')\<rparr>),
                 bucketSize = BucketSize c', blockSize = BlockSize c', calls = []\<rparr>"
    by (simp add: s_eq)
  have rest: "height s = int h" "numLeaves s = 2 ^ (h - 1)" "posMap s = Map.empty"
    "stash s = []" "rng s = entropy" by (simp_all add: s_eq)
  show ?thesis
    unfolding c
    by (rule exI[of _ h]) (intro conjI v zp h(1) h44 ok(3) h(3) sto' rest)
qed

section \<open>Paths and ancestry\<close>

lemma length_pathFrom [simp]: "length (pathFrom n b) = n"
  by (induction n arbitrary: b) auto

lemma pathFrom_0: "0 < n \<Longrightarrow> pathFrom n b ! 0 = b"
  by (cases n) auto








lemma pathFrom_nth: "i < n \<Longrightarrow> pathFrom n b ! i = ((\<lambda>b. goDiv (wrap64 (b - 1)) 2) ^^ i) b"
proof (induction n arbitrary: b i)
  case 0
  then show ?case by simp
next
  case (Suc n)
  show ?case
  proof (cases i)
    case 0
    then show ?thesis by simp
  next
    case (Suc j)
    have "((\<lambda>b. goDiv (wrap64 (b - 1)) 2) ^^ j) (goDiv (wrap64 (b - 1)) 2)
        = ((\<lambda>b. goDiv (wrap64 (b - 1)) 2) ^^ Suc j) b"
      by (simp only: funpow_Suc_right o_apply)
    then show ?thesis using Suc.IH[of j "goDiv (wrap64 (b - 1)) 2"] Suc.prems Suc
      by (simp del: funpow.simps)
  qed
qed

lemma sorted_gt_distinct: "sorted_wrt (>) (xs::int list) \<Longrightarrow> distinct xs"
  by (induction xs) auto


section \<open>C8: tree geometry\<close>







text \<open>A negative bucket size passes \<open>Validate\<close>; the allocation of the first bucket panics.\<close>

lemma NewInMemory_negative_bucket:
  assumes "0 < NumBlocks c" "0 < BlockSize c" "BucketSize c < 0"
  shows "NewInMemory c entropy = Inl Panic"
proof -
  from Validate_ok[OF assms(1,2)] obtain c' where v: "Validate c = Inr c'" by blast
  have "BucketSize c' < 0" using Validate_Inr[OF v] assms(3) by simp
  then have "\<not> makeOk 40 (BucketSize c')" by (simp add: makeOk_def)
  with NewInMemory_eq[OF v, of entropy] show ?thesis by auto
qed




section \<open>Validation\<close>

text \<open>
  C9 (validation errors).  \<open>Access\<close>, \<open>Read\<close> and \<open>Write\<close> with an id outside \<open>[0, N)\<close>
  return \<open>ErrInvalidBlockID\<close>; a write to a valid id whose payload length differs from
  \<open>B\<close> returns \<open>ErrInvalidDataSize\<close>; in each case the engine (stash, position map, bucket
  store) is returned exactly as it was.
\<close>

theorem validation_errors:
  "(blockID < 0 \<or> NumBlocks (cfg s) \<le> blockID \<longrightarrow>
      Access s blockID d = (Inl ErrInvalidBlockID, s)
      \<and> Read s blockID = (Inl ErrInvalidBlockID, s)
      \<and> Write s blockID d = (Inl ErrInvalidBlockID, s))
   \<and> (0 \<le> blockID \<and> blockID < NumBlocks (cfg s) \<and> len d \<noteq> BlockSize (cfg s) \<longrightarrow>
      Write s blockID d = (Inl ErrInvalidDataSize, s)
      \<and> (d \<noteq> None \<longrightarrow> Access s blockID d = (Inl ErrInvalidDataSize, s)))"
  by (simp add: Access_def Read_def Write_def)

theorem validation_errors_witness:
  "Access eng7 (-1) (Some [1, 2]) = (Inl ErrInvalidBlockID, eng7)
   \<and> Read eng7 7 = (Inl ErrInvalidBlockID, eng7)
   \<and> Write eng7 9 (Some [1, 2]) = (Inl ErrInvalidBlockID, eng7)
   \<and> Write eng7 0 (Some [1]) = (Inl ErrInvalidDataSize, eng7)
   \<and> Write eng7 0 (Some [1, 2, 3]) = (Inl ErrInvalidDataSize, eng7)
   \<and> Write eng7 0 (Some []) = (Inl ErrInvalidDataSize, eng7)
   \<and> Access eng7 0 (Some [1, 2, 3]) = (Inl ErrInvalidDataSize, eng7)"
  using validation_errors[of "-1" eng7 "Some [1, 2]"] validation_errors[of 7 eng7 None]
    validation_errors[of 9 eng7 "Some [1, 2]"] validation_errors[of 0 eng7 "Some [1]"]
    validation_errors[of 0 eng7 "Some [1, 2, 3]"] validation_errors[of 0 eng7 "Some []"]
  by (simp add: eng7_def cfg7_def len_def)

end
